theory Spec2Isabelle
  imports Main "HOL-Library.Sublist"
begin

section \<open>The test-app server script: process level\<close>

text \<open>
  The script \<^verbatim>\<open>serve-test-app.py\<close> consists of a request handler class and of
  \<^verbatim>\<open>main()\<close>. This section embeds \<^verbatim>\<open>main()\<close>. The three calls into the
  standard library whose result the control flow of \<^verbatim>\<open>main()\<close> depends on (the
  \<^verbatim>\<open>TCPServer\<close> constructor, \<^verbatim>\<open>webbrowser.open\<close> and \<^verbatim>\<open>serve_forever\<close>)
  get their result from an environment; everything \<^verbatim>\<open>main()\<close> itself does with such
  a result (the \<^verbatim>\<open>with\<close> block, the bare \<^verbatim>\<open>except:\<close>, the two handlers, the calls
  of \<^verbatim>\<open>sys.exit\<close>) is written out. \<^verbatim>\<open>print\<close> is taken to succeed.
\<close>

subsection \<open>Decimal rendering of numbers in f-strings\<close>

function str_nat :: "nat \<Rightarrow> string" where
  "str_nat n =
     (if n < 10 then [''0123456789'' ! n]
      else str_nat (n div 10) @ [''0123456789'' ! (n mod 10)])"
  by pat_completeness auto
termination
  by (relation "measure id") auto

declare str_nat.simps [simp del]

definition str_int :: "int \<Rightarrow> string" where
  "str_int i = (if i < 0 then CHR ''-'' # str_nat (nat (- i)) else str_nat (nat i))"

subsection \<open>Exceptions and outcomes of library calls\<close>

text \<open>
  \<^verbatim>\<open>KeyboardInterrupt\<close> and \<^verbatim>\<open>SystemExit\<close> derive from \<^verbatim>\<open>BaseException\<close> only;
  \<^verbatim>\<open>OSError\<close> carries \<^verbatim>\<open>errno\<close> (possibly \<^verbatim>\<open>None\<close>) and \<^verbatim>\<open>strerror\<close>;
  \<open>Exception\<close> stands for every other exception class.
\<close>

datatype exc =
    KeyboardInterrupt
  | OSError "int option" string
  | SystemExit int
  | Exception string

text \<open>A call returns, raises, or does not come back (\<open>Blocks\<close>).\<close>

datatype 'a outcome = Return 'a | Raise exc | Blocks

text \<open>\<^verbatim>\<open>str(e)\<close> for an \<^verbatim>\<open>OSError\<close>, as interpolated by \<^verbatim>\<open>{e}\<close>.\<close>

definition str_OSError :: "int option \<Rightarrow> string \<Rightarrow> string" where
  "str_OSError errno strerror =
     (case errno of
        None \<Rightarrow> strerror
      | Some n \<Rightarrow> ''[Errno '' @ str_int n @ ''] '' @ strerror)"

subsection \<open>Observable state\<close>

text \<open>
  The lines the script prints. Each constructor is one \<^verbatim>\<open>print\<close> call of the source
  (the texts start with a pictograph, which is left out here):
  \<^item> \<open>Starting p\<close>: "BioID Test App Server starting on port p"
  \<^item> \<open>Open_your_browser u\<close>: "Open your browser to: u"
  \<^item> \<open>Keycloak_hint\<close>: "Make sure your Keycloak is running on: http://localhost:8080"
  \<^item> \<open>Press_ctrl_c\<close>: "Press Ctrl+C to stop the server"
  \<^item> \<open>Empty_line\<close>: \<^verbatim>\<open>print()\<close>
  \<^item> \<open>Browser_opened\<close>: "Browser opened automatically"
  \<^item> \<open>Browser_not_opened\<close>: "Could not open browser automatically"
  \<^item> \<open>Stopped_by_user\<close>: "Server stopped by user"
  \<^item> \<open>Port_in_use p\<close>: "Port p is already in use. Try a different port or stop the
    other service."
  \<^item> \<open>Error_starting s\<close>: "Error starting server: s"
\<close>

datatype line =
    Starting nat
  | Open_your_browser string
  | Keycloak_hint
  | Press_ctrl_c
  | Empty_line
  | Browser_opened
  | Browser_not_opened
  | Stopped_by_user
  | Port_in_use nat
  | Error_starting string

datatype event =
    Print line
  | Browser_open string
  | Serve_forever
  | Server_close

datatype sock = Unbound | Listening | Closed

record server =
  server_address :: "string \<times> nat"
  socket :: sock

record world =
  trace :: "event list"
  httpd :: "server option"

record env =
  bind_and_activate :: "unit outcome"
  webbrowser_open :: "string \<Rightarrow> bool outcome"
  serve_forever :: "unit outcome"

definition log_event :: "event \<Rightarrow> world \<Rightarrow> world" where
  "log_event e w = w\<lparr>trace := trace w @ [e]\<rparr>"

definition print :: "line \<Rightarrow> world \<Rightarrow> world" where
  "print l w = log_event (Print l) w"

subsection \<open>The server object\<close>

text \<open>
  \<^verbatim>\<open>TCPServer.server_close\<close> is \<^verbatim>\<open>self.socket.close()\<close>; closing a socket marks it
  closed whatever its state was.
\<close>

definition server_close :: "server \<Rightarrow> server" where
  "server_close srv = srv\<lparr>socket := Closed\<rparr>"

text \<open>
  The constructor creates the socket, then binds and listens; when that raises it calls
  \<^verbatim>\<open>server_close\<close> and re-raises.
\<close>

definition TCPServer :: "env \<Rightarrow> string \<times> nat \<Rightarrow> world \<Rightarrow> unit outcome \<times> world" where
  "TCPServer E addr w =
     (let srv = \<lparr>server_address = addr, socket = Unbound\<rparr> in
      case bind_and_activate E of
        Return _ \<Rightarrow> (Return (), w\<lparr>httpd := Some (srv\<lparr>socket := Listening\<rparr>)\<rparr>)
      | Raise e \<Rightarrow> (Raise e, w\<lparr>httpd := Some (server_close srv)\<rparr>)
      | Blocks \<Rightarrow> (Blocks, w\<lparr>httpd := Some srv\<rparr>))"

text \<open>\<^verbatim>\<open>__exit__\<close> of the \<^verbatim>\<open>with\<close> block: \<^verbatim>\<open>self.server_close()\<close>.\<close>

definition exit_with :: "world \<Rightarrow> world" where
  "exit_with w = log_event Server_close (w\<lparr>httpd := map_option server_close (httpd w)\<rparr>)"

subsection \<open>main()\<close>

definition PORT :: nat where
  "PORT = 3000"

definition test_app_url :: string where
  "test_app_url = ''http://localhost:'' @ str_nat PORT @ ''/test-app.html''"

text \<open>
  The inner \<^verbatim>\<open>try\<close>: \<^verbatim>\<open>webbrowser.open(...)\<close>, then the success line; the bare
  \<^verbatim>\<open>except:\<close> catches every exception the call raises, whatever its class. The value
  the call returns is not looked at.
\<close>

definition try_open_browser :: "env \<Rightarrow> world \<Rightarrow> unit outcome \<times> world" where
  "try_open_browser E w =
     (let w = log_event (Browser_open test_app_url) w in
      case webbrowser_open E test_app_url of
        Return _ \<Rightarrow> (Return (), print Browser_opened w)
      | Raise _ \<Rightarrow> (Return (), print Browser_not_opened w)
      | Blocks \<Rightarrow> (Blocks, w))"

text \<open>The body of the \<^verbatim>\<open>with\<close> block.\<close>

definition with_body :: "env \<Rightarrow> world \<Rightarrow> unit outcome \<times> world" where
  "with_body E w =
     (let w = print (Starting PORT) w;
          w = print (Open_your_browser test_app_url) w;
          w = print Keycloak_hint w;
          w = print Press_ctrl_c w;
          w = print Empty_line w
      in case try_open_browser E w of
           (Return _, w) \<Rightarrow>
             (let w = print Empty_line w;
                  w = log_event Serve_forever w
              in (serve_forever E, w))
         | (r, w) \<Rightarrow> (r, w))"

text \<open>
  The \<^verbatim>\<open>with\<close> statement: when the constructor raises, the block is not entered; when
  the body returns or raises, \<^verbatim>\<open>__exit__\<close> runs and does not suppress the exception.
\<close>

definition with_TCPServer :: "env \<Rightarrow> world \<Rightarrow> unit outcome \<times> world" where
  "with_TCPServer E w =
     (case TCPServer E ('''', PORT) w of
        (Return _, w) \<Rightarrow>
          (case with_body E w of
             (Blocks, w) \<Rightarrow> (Blocks, w)
           | (r, w) \<Rightarrow> (r, exit_with w))
      | (r, w) \<Rightarrow> (r, w))"

text \<open>
  The outer \<^verbatim>\<open>try\<close> with its two handlers. \<^verbatim>\<open>sys.exit(n)\<close> raises
  \<^verbatim>\<open>SystemExit(n)\<close>. An exception of any other class is not caught.
\<close>

definition main :: "env \<Rightarrow> world \<Rightarrow> unit outcome \<times> world" where
  "main E w =
     (case with_TCPServer E w of
        (Raise KeyboardInterrupt, w) \<Rightarrow>
          (Raise (SystemExit 0), print Stopped_by_user w)
      | (Raise (OSError errno strerror), w) \<Rightarrow>
          (if errno = Some 48
           then (Raise (SystemExit 1), print (Port_in_use PORT) w)
           else (Raise (SystemExit 1), print (Error_starting (str_OSError errno strerror)) w))
      | (r, w) \<Rightarrow> (r, w))"

text \<open>The script run from a fresh process.\<close>

definition script :: "env \<Rightarrow> unit outcome \<times> world" where
  "script E = main E \<lparr>trace = [], httpd = None\<rparr>"

text \<open>
  The exit status of the interpreter: 0 when the script runs to its end, the argument of
  \<^verbatim>\<open>SystemExit\<close>, 1 for an exception nobody caught (an uncaught
  \<^verbatim>\<open>KeyboardInterrupt\<close> ends the process by \<^verbatim>\<open>SIGINT\<close>, which a shell reports as
  130); none while the process runs.
\<close>

fun exit_code :: "unit outcome \<Rightarrow> int option" where
  "exit_code (Return _) = Some 0"
| "exit_code (Raise (SystemExit n)) = Some n"
| "exit_code (Raise KeyboardInterrupt) = Some 130"
| "exit_code (Raise _) = Some 1"
| "exit_code Blocks = None"

definition printed :: "world \<Rightarrow> line list" where
  "printed w = concat (map (\<lambda>e. case e of Print l \<Rightarrow> [l] | _ \<Rightarrow> []) (trace w))"

definition listening_socket :: "world \<Rightarrow> sock option" where
  "listening_socket w = map_option socket (httpd w)"

text \<open>
  How the operating system reports an occupied port: \<^verbatim>\<open>bind\<close> fails with
  \<^verbatim>\<open>EADDRINUSE\<close>, whose number is 98 on Linux and 48 on macOS and the BSDs.
\<close>

datatype platform = Linux | Darwin

fun EADDRINUSE :: "platform \<Rightarrow> int" where
  "EADDRINUSE Linux = 98"
| "EADDRINUSE Darwin = 48"

definition address_in_use :: "platform \<Rightarrow> exc" where
  "address_in_use p = OSError (Some (EADDRINUSE p)) ''Address already in use''"

text \<open>The events up to and including the attempt to open the browser.\<close>

definition banner :: "event list" where
  "banner =
     [Print (Starting PORT), Print (Open_your_browser test_app_url), Print Keycloak_hint,
      Print Press_ctrl_c, Print Empty_line, Browser_open test_app_url]"

text \<open>The line of the inner \<^verbatim>\<open>try\<close> that gets printed.\<close>

definition browser_line :: "env \<Rightarrow> line" where
  "browser_line E =
     (case webbrowser_open E test_app_url of
        Raise _ \<Rightarrow> Browser_not_opened
      | _ \<Rightarrow> Browser_opened)"

definition closed_server :: server where
  "closed_server = \<lparr>server_address = ('''', PORT), socket = Closed\<rparr>"


text \<open>
  What the two handlers of the outer \<^verbatim>\<open>try\<close> make of the outcome of the \<^verbatim>\<open>with\<close>
  statement (\<open>handled\<close>), and what they print (\<open>report\<close>).
\<close>

definition handled :: "unit outcome \<Rightarrow> unit outcome" where
  "handled r =
     (case r of
        Raise KeyboardInterrupt \<Rightarrow> Raise (SystemExit 0)
      | Raise (OSError _ _) \<Rightarrow> Raise (SystemExit 1)
      | _ \<Rightarrow> r)"

definition report :: "unit outcome \<Rightarrow> event list" where
  "report r =
     (case r of
        Raise KeyboardInterrupt \<Rightarrow> [Print Stopped_by_user]
      | Raise (OSError errno strerror) \<Rightarrow>
          [Print (if errno = Some 48 then Port_in_use PORT
                  else Error_starting (str_OSError errno strerror))]
      | _ \<Rightarrow> [])"

subsection \<open>Sample runs\<close>

text \<open>The operator presses Ctrl+C while the server serves.\<close>

definition interrupted_run :: env where
  "interrupted_run =
     \<lparr>bind_and_activate = Return (),
      webbrowser_open = (\<lambda>_. Return True),
      serve_forever = Raise KeyboardInterrupt\<rparr>"

text \<open>No browser can be started and the call raises; the server is stopped later.\<close>

definition no_browser_run :: env where
  "no_browser_run =
     \<lparr>bind_and_activate = Return (),
      webbrowser_open = (\<lambda>_. Raise (Exception ''webbrowser.Error'')),
      serve_forever = Raise KeyboardInterrupt\<rparr>"

text \<open>Ctrl+C arrives while the browser is being opened; the server then keeps serving.\<close>

definition interrupted_browser_run :: env where
  "interrupted_browser_run =
     \<lparr>bind_and_activate = Return (),
      webbrowser_open = (\<lambda>_. Raise KeyboardInterrupt),
      serve_forever = Blocks\<rparr>"

text \<open>The serve loop fails with an \<^verbatim>\<open>OSError\<close> (here \<^verbatim>\<open>EBADF\<close>).\<close>

definition failing_serve_run :: env where
  "failing_serve_run =
     \<lparr>bind_and_activate = Return (),
      webbrowser_open = (\<lambda>_. Return False),
      serve_forever = Raise (OSError (Some 9) ''Bad file descriptor'')\<rparr>"

section \<open>The request handler\<close>

text \<open>
  \<^verbatim>\<open>CORSHTTPRequestHandler\<close> derives from \<^verbatim>\<open>http.server.SimpleHTTPRequestHandler\<close>.
  It overrides \<^verbatim>\<open>end_headers\<close> and adds \<^verbatim>\<open>do_OPTIONS\<close>; these two are embedded from
  the script. Everything else is inherited, and what a response looks like is decided
  there: the inherited methods are embedded from the standard library
  (\<^verbatim>\<open>Lib/http/server.py\<close>, CPython 3.11), with their names, their order of checks and
  their calls of \<^verbatim>\<open>self.end_headers()\<close>, which reach the override. Request logging and
  the \<^verbatim>\<open>close_connection\<close> flag are left out. Reading and parsing the request line
  and the request headers happen before the embedded part starts.
\<close>

subsection \<open>Data\<close>

type_synonym bytes = string

text \<open>
  A line of the header section as \<^verbatim>\<open>send_response_only\<close> and \<^verbatim>\<open>send_header\<close> format
  it: \<open>Status_line v c m\<close> is \<^verbatim>\<open>"v c m\r\n"\<close>, \<open>Header k v\<close> is \<^verbatim>\<open>"k: v\r\n"\<close>,
  \<open>Blank_line\<close> is \<^verbatim>\<open>"\r\n"\<close>. \<open>Head ls\<close> is one write of the joined header
  buffer, \<open>Body b\<close> a write of content.
\<close>

datatype hline = Status_line string nat string | Header string string | Blank_line

datatype chunk = Head "hline list" | Body bytes

datatype fs_op = Isdir string | Isfile string | Open_rb string | Listdir string

text \<open>The \<^verbatim>\<open>tzinfo\<close> of a parsed date: none, \<^verbatim>\<open>timezone.utc\<close>, or another offset.\<close>

datatype tzinfo = Naive | Utc | Offset

text \<open>
  What the handler finds around it: tables and helper functions of the standard library
  that the embedded methods call, and the file system as the server process sees it.
  \<open>open_rb p\<close> is \<^verbatim>\<open>open(p, 'rb')\<close> with the content and \<^verbatim>\<open>st_mtime\<close> (whole
  seconds) of the opened file, \<open>None\<close> when it raises \<^verbatim>\<open>OSError\<close>; \<open>listdir p\<close>
  likewise. \<open>error_message c m e\<close> is the encoded error page, \<open>listing u p names\<close>
  the encoded directory listing, \<open>urlsplit_path u\<close> the path component of \<open>u\<close>,
  \<open>with_slash u\<close> the URL \<open>u\<close> with \<^verbatim>\<open>/\<close> added to its path component.
\<close>

record stdlib =
  protocol_version :: string
  responses :: "nat \<rightharpoonup> string \<times> string"
  version_string :: string
  date_time_string :: "int option \<Rightarrow> string"
  error_message :: "nat \<Rightarrow> string \<Rightarrow> string \<Rightarrow> bytes"
  error_content_type :: string
  repr :: "string \<Rightarrow> string"
  translate_path :: "string \<Rightarrow> string"
  guess_type :: "string \<Rightarrow> string"
  urlsplit_path :: "string \<Rightarrow> string"
  with_slash :: "string \<Rightarrow> string"
  parsedate_to_datetime :: "string \<Rightarrow> (int \<times> tzinfo) option"
  listing :: "string \<Rightarrow> string \<Rightarrow> string list \<Rightarrow> bytes"
  filesystem_encoding :: string
  isdir :: "string \<Rightarrow> bool"
  isfile :: "string \<Rightarrow> bool"
  open_rb :: "string \<Rightarrow> (bytes \<times> int) option"
  listdir :: "string \<Rightarrow> string list option"

text \<open>
  The handler object: the parsed request (\<open>headers\<close> maps a header name, spelt as
  the library looks it up, to its value), the header buffer, what has been written to the
  connection, and the file system calls made so far. A handler object serves one
  request: \<open>parsed_request\<close> is the object when \<^verbatim>\<open>parse_request\<close> has succeeded.
\<close>

record handler =
  command :: string
  path :: string
  request_version :: string
  headers :: "string \<rightharpoonup> string"
  headers_buffer :: "hline list"
  wfile :: "chunk list"
  fs_log :: "fs_op list"

definition parsed_request ::
  "string \<Rightarrow> string \<Rightarrow> string \<Rightarrow> (string \<rightharpoonup> string) \<Rightarrow> handler" where
  "parsed_request cmd p ver hdrs =
     \<lparr>command = cmd, path = p, request_version = ver, headers = hdrs,
      headers_buffer = [], wfile = [], fs_log = []\<rparr>"

definition fs_access :: "fs_op \<Rightarrow> handler \<Rightarrow> handler" where
  "fs_access op h = h\<lparr>fs_log := fs_log h @ [op]\<rparr>"

definition wfile_write :: "bytes \<Rightarrow> handler \<Rightarrow> handler" where
  "wfile_write b h = h\<lparr>wfile := wfile h @ [Body b]\<rparr>"

definition endswith :: "string \<Rightarrow> char \<Rightarrow> bool" where
  "endswith s c = (s \<noteq> [] \<and> last s = c)"

text \<open>\<^verbatim>\<open>os.path.join\<close> (POSIX) for two components.\<close>

definition join :: "string \<Rightarrow> string \<Rightarrow> string" where
  "join a b =
     (if b \<noteq> [] \<and> hd b = CHR ''/'' then b
      else if a = [] \<or> last a = CHR ''/'' then a @ b
      else a @ ''/'' @ b)"

subsection \<open>Inherited from BaseHTTPRequestHandler\<close>

definition send_response_only :: "stdlib \<Rightarrow> nat \<Rightarrow> string option \<Rightarrow> handler \<Rightarrow> handler" where
  "send_response_only S code message h =
     (if request_version h \<noteq> ''HTTP/0.9'' then
        (let message =
               (case message of
                  None \<Rightarrow> (case responses S code of Some (phrase, _) \<Rightarrow> phrase | None \<Rightarrow> '''')
                | Some m \<Rightarrow> m)
         in h\<lparr>headers_buffer :=
                headers_buffer h @ [Status_line (protocol_version S) code message]\<rparr>)
      else h)"

definition send_header :: "string \<Rightarrow> string \<Rightarrow> handler \<Rightarrow> handler" where
  "send_header keyword val h =
     (if request_version h \<noteq> ''HTTP/0.9''
      then h\<lparr>headers_buffer := headers_buffer h @ [Header keyword val]\<rparr>
      else h)"

definition flush_headers :: "handler \<Rightarrow> handler" where
  "flush_headers h = h\<lparr>wfile := wfile h @ [Head (headers_buffer h)], headers_buffer := []\<rparr>"

text \<open>\<^verbatim>\<open>BaseHTTPRequestHandler.end_headers\<close>, which \<^verbatim>\<open>super().end_headers()\<close> calls.\<close>

definition base_end_headers :: "handler \<Rightarrow> handler" where
  "base_end_headers h =
     (if request_version h \<noteq> ''HTTP/0.9''
      then flush_headers (h\<lparr>headers_buffer := headers_buffer h @ [Blank_line]\<rparr>)
      else h)"

definition send_response :: "stdlib \<Rightarrow> nat \<Rightarrow> string option \<Rightarrow> handler \<Rightarrow> handler" where
  "send_response S code message h =
     (let h = send_response_only S code message h;
          h = send_header ''Server'' (version_string S) h
      in send_header ''Date'' (date_time_string S None) h)"

subsection \<open>The script's handler class\<close>

text \<open>The override: three \<^verbatim>\<open>send_header\<close> calls, then the inherited method.\<close>

definition end_headers :: "handler \<Rightarrow> handler" where
  "end_headers h =
     (let h = send_header ''Access-Control-Allow-Origin'' ''*'' h;
          h = send_header ''Access-Control-Allow-Methods'' ''GET, POST, OPTIONS'' h;
          h = send_header ''Access-Control-Allow-Headers'' ''Content-Type, Authorization'' h
      in base_end_headers h)"

definition do_OPTIONS :: "stdlib \<Rightarrow> handler \<Rightarrow> handler" where
  "do_OPTIONS S h =
     (let h = send_response S 200 None h
      in end_headers h)"

subsection \<open>Inherited methods that call end_headers\<close>

definition send_error :: "stdlib \<Rightarrow> nat \<Rightarrow> string option \<Rightarrow> handler \<Rightarrow> handler" where
  "send_error S code message h =
     (let (shortmsg, longmsg) =
            (case responses S code of Some p \<Rightarrow> p | None \<Rightarrow> (''???'', ''???''));
          message = (case message of None \<Rightarrow> shortmsg | Some m \<Rightarrow> m);
          explain = longmsg;
          h = send_response S code (Some message) h;
          h = send_header ''Connection'' ''close'' h;
          body =
            (if code \<ge> 200 \<and> code \<notin> {204, 205, 304}
             then Some (error_message S code message explain)
             else None);
          h = (case body of
                 Some b \<Rightarrow>
                   (let h = send_header ''Content-Type'' (error_content_type S) h
                    in send_header ''Content-Length'' (str_nat (length b)) h)
               | None \<Rightarrow> h);
          h = end_headers h
      in case body of
           Some b \<Rightarrow> (if command h \<noteq> ''HEAD'' \<and> b \<noteq> [] then wfile_write b h else h)
         | None \<Rightarrow> h)"

text \<open>
  \<^verbatim>\<open>list_directory\<close>: the headers of the listing, and the listing to copy; a 404 when
  the directory cannot be listed. Building the page from the names is \<open>listing\<close>.
\<close>

definition list_directory :: "stdlib \<Rightarrow> string \<Rightarrow> handler \<Rightarrow> bytes option \<times> handler" where
  "list_directory S p h =
     (let h = fs_access (Listdir p) h in
      case listdir S p of
        None \<Rightarrow> (None, send_error S 404 (Some ''No permission to list directory'') h)
      | Some names \<Rightarrow>
          (let encoded = listing S (path h) p names;
               h = send_response S 200 None h;
               h = send_header ''Content-type''
                     (''text/html; charset='' @ filesystem_encoding S) h;
               h = send_header ''Content-Length'' (str_nat (length encoded)) h;
               h = end_headers h
           in (Some encoded, h)))"

text \<open>
  The test in \<^verbatim>\<open>send_head\<close> that lets the browser use its cache: an
  \<^verbatim>\<open>If-Modified-Since\<close> header without \<^verbatim>\<open>If-None-Match\<close>, well formed, without a
  time zone or in UTC, and not earlier than the last modification of the file.
\<close>

definition use_browser_cache :: "stdlib \<Rightarrow> (string \<rightharpoonup> string) \<Rightarrow> int \<Rightarrow> bool" where
  "use_browser_cache S hdrs mtime =
     (case hdrs ''If-Modified-Since'' of
        None \<Rightarrow> False
      | Some v \<Rightarrow>
          (if hdrs ''If-None-Match'' \<noteq> None then False
           else case parsedate_to_datetime S v of
                  None \<Rightarrow> False
                | Some (ims, tz) \<Rightarrow> (tz = Naive \<or> tz = Utc) \<and> mtime \<le> ims))"

text \<open>
  \<^verbatim>\<open>send_head\<close> from \<^verbatim>\<open>ctype = self.guess_type(path)\<close> on: the path of a file to
  send.
\<close>

definition send_head_file :: "stdlib \<Rightarrow> string \<Rightarrow> handler \<Rightarrow> bytes option \<times> handler" where
  "send_head_file S p h =
     (let ctype = guess_type S p in
      if endswith p CHR ''/'' then (None, send_error S 404 (Some ''File not found'') h)
      else
        (let h = fs_access (Open_rb p) h in
         case open_rb S p of
           None \<Rightarrow> (None, send_error S 404 (Some ''File not found'') h)
         | Some (content, mtime) \<Rightarrow>
             (if use_browser_cache S (headers h) mtime then
                (let h = send_response S 304 None h
                 in (None, end_headers h))
              else
                (let h = send_response S 200 None h;
                     h = send_header ''Content-type'' ctype h;
                     h = send_header ''Content-Length'' (str_nat (length content)) h;
                     h = send_header ''Last-Modified'' (date_time_string S (Some mtime)) h;
                     h = end_headers h
                 in (Some content, h)))))"

text \<open>
  \<^verbatim>\<open>send_head\<close>: a directory is redirected to (the URL with a slash), answered by its
  index page, or listed; anything else is sent as a file.
\<close>

definition send_head :: "stdlib \<Rightarrow> handler \<Rightarrow> bytes option \<times> handler" where
  "send_head S h =
     (let p = translate_path S (path h);
          h = fs_access (Isdir p) h
      in if isdir S p then
           (if \<not> endswith (urlsplit_path S (path h)) CHR ''/'' then
              (let h = send_response S 301 None h;
                   h = send_header ''Location'' (with_slash S (path h)) h;
                   h = send_header ''Content-Length'' ''0'' h
               in (None, end_headers h))
            else
              (let i1 = join p ''index.html'';
                   h = fs_access (Isfile i1) h
               in if isfile S i1 then send_head_file S i1 h
                  else
                    (let i2 = join p ''index.htm'';
                         h = fs_access (Isfile i2) h
                     in if isfile S i2 then send_head_file S i2 h
                        else list_directory S p h)))
         else send_head_file S p h)"

text \<open>\<^verbatim>\<open>copyfile\<close>: the content goes to the connection; nothing is written for none.\<close>

definition copyfile :: "bytes \<Rightarrow> handler \<Rightarrow> handler" where
  "copyfile content h = (if content = [] then h else wfile_write content h)"

definition do_GET :: "stdlib \<Rightarrow> handler \<Rightarrow> handler" where
  "do_GET S h =
     (case send_head S h of
        (Some f, h) \<Rightarrow> copyfile f h
      | (None, h) \<Rightarrow> h)"

definition do_HEAD :: "stdlib \<Rightarrow> handler \<Rightarrow> handler" where
  "do_HEAD S h = snd (send_head S h)"

text \<open>
  \<^verbatim>\<open>handle_one_request\<close> from the method lookup on: the class has \<^verbatim>\<open>do_GET\<close>,
  \<^verbatim>\<open>do_HEAD\<close> (inherited) and \<^verbatim>\<open>do_OPTIONS\<close>; any other command gets a 501.
\<close>

definition handle_one_request :: "stdlib \<Rightarrow> handler \<Rightarrow> handler" where
  "handle_one_request S h =
     (if command h = ''GET'' then do_GET S h
      else if command h = ''HEAD'' then do_HEAD S h
      else if command h = ''OPTIONS'' then do_OPTIONS S h
      else send_error S 501 (Some (''Unsupported method ('' @ repr S (command h) @ '')'')) h)"

subsection \<open>Reading a response\<close>

definition cors_headers :: "hline list" where
  "cors_headers =
     [Header ''Access-Control-Allow-Origin'' ''*'',
      Header ''Access-Control-Allow-Methods'' ''GET, POST, OPTIONS'',
      Header ''Access-Control-Allow-Headers'' ''Content-Type, Authorization'']"

definition response_status :: "handler \<Rightarrow> nat option" where
  "response_status h =
     (case wfile h of
        Head (Status_line _ code _ # _) # _ \<Rightarrow> Some code
      | _ \<Rightarrow> None)"

definition response_body :: "handler \<Rightarrow> bytes" where
  "response_body h = concat (map (\<lambda>c. case c of Body b \<Rightarrow> b | Head _ \<Rightarrow> []) (wfile h))"



text \<open>
  \<open>staged h h'\<close>: \<open>h'\<close> is \<open>h\<close> with more lines in the header buffer and nothing more
  written. \<open>answered h h'\<close>: since \<open>h\<close>, one header section has been written, which
  ends with the three CORS headers and the blank line, and after it content only.
\<close>

definition staged :: "handler \<Rightarrow> handler \<Rightarrow> bool" where
  "staged h h' \<longleftrightarrow>
     request_version h' \<noteq> ''HTTP/0.9'' \<and> wfile h' = wfile h
   \<and> (\<exists>ls. headers_buffer h' = headers_buffer h @ ls)"

definition answered :: "handler \<Rightarrow> handler \<Rightarrow> bool" where
  "answered h h' \<longleftrightarrow>
     (\<exists>ls bodies. wfile h' =
        wfile h @ Head (headers_buffer h @ ls @ cors_headers @ [Blank_line]) # map Body bodies)"

subsection \<open>A sample document root\<close>

text \<open>
  The directory \<^verbatim>\<open>/srv/app\<close> holds \<^verbatim>\<open>test-app.html\<close> and nothing else.
\<close>

definition test_app_html :: bytes where
  "test_app_html = ''<html><body>BioID test</body></html>''"

definition sample_stdlib :: stdlib where
  "sample_stdlib =
     \<lparr>protocol_version = ''HTTP/1.0'',
      responses =
        [200 \<mapsto> (''OK'', ''Request fulfilled, document follows''),
         304 \<mapsto> (''Not Modified'', ''Document has not changed since given time''),
         404 \<mapsto> (''Not Found'', ''Nothing matches the given URI''),
         501 \<mapsto> (''Not Implemented'', ''Server does not support this operation'')],
      version_string = ''SimpleHTTP/0.6 Python/3.11.10'',
      date_time_string = (\<lambda>t. case t of None \<Rightarrow> ''Wed, 04 Nov 2026 12:00:00 GMT''
                                 | Some _ \<Rightarrow> ''Tue, 14 Nov 2023 22:13:20 GMT''),
      error_message = (\<lambda>code message explain. ''<p>'' @ message @ ''</p>''),
      error_content_type = ''text/html;charset=utf-8'',
      repr = (\<lambda>s. [CHR 0x27] @ s @ [CHR 0x27]),
      translate_path = (\<lambda>p. ''/srv/app'' @ p),
      guess_type = (\<lambda>p. ''text/html''),
      urlsplit_path = (\<lambda>u. u),
      with_slash = (\<lambda>u. u @ ''/''),
      parsedate_to_datetime =
        (\<lambda>v. if v = ''Wed, 04 Nov 2026 11:00:00 GMT'' then Some (1793790000, Utc) else None),
      listing = (\<lambda>u p names. concat names),
      filesystem_encoding = ''utf-8'',
      isdir = (\<lambda>p. p = ''/srv/app/''),
      isfile = (\<lambda>p. p = ''/srv/app/test-app.html''),
      open_rb = (\<lambda>p. if p = ''/srv/app/test-app.html''
                     then Some (test_app_html, 1700000000) else None),
      listdir = (\<lambda>p. if p = ''/srv/app/'' then Some [''test-app.html''] else None)\<rparr>"


text \<open>A request with a method the handler class has no \<^verbatim>\<open>do_\<close> method for.\<close>

definition put_request :: handler where
  "put_request = parsed_request ''PUT'' ''/test-app.html'' ''HTTP/1.1'' Map.empty"

section \<open>Properties of main()\<close>



lemmas main_defs = script_def main_def with_TCPServer_def with_body_def
  try_open_browser_def TCPServer_def exit_with_def server_close_def print_def log_event_def

text \<open>The three ways a run can go, each with the whole trace it leaves.\<close>

lemma script_bind_raises:
  "bind_and_activate E = Raise e \<Longrightarrow>
   script E = (handled (Raise e), \<lparr>trace = report (Raise e), httpd = Some closed_server\<rparr>)"
  by (cases e) (simp_all add: main_defs handled_def report_def closed_server_def)

lemma script_served:
  "bind_and_activate E = Return () \<Longrightarrow> webbrowser_open E test_app_url \<noteq> Blocks \<Longrightarrow>
   serve_forever E \<noteq> Blocks \<Longrightarrow>
   script E =
     (handled (serve_forever E),
      \<lparr>trace = banner @ [Print (browser_line E), Print Empty_line, Serve_forever, Server_close]
                @ report (serve_forever E),
       httpd = Some closed_server\<rparr>)"
  by (cases "webbrowser_open E test_app_url"; cases "serve_forever E")
     (simp_all add: main_defs banner_def handled_def report_def closed_server_def
        browser_line_def split: exc.splits)

lemma script_serving:
  "bind_and_activate E = Return () \<Longrightarrow> webbrowser_open E test_app_url \<noteq> Blocks \<Longrightarrow>
   serve_forever E = Blocks \<Longrightarrow>
   script E =
     (Blocks,
      \<lparr>trace = banner @ [Print (browser_line E), Print Empty_line, Serve_forever],
       httpd = Some \<lparr>server_address = ('''', PORT), socket = Listening\<rparr>\<rparr>)"
  by (cases "webbrowser_open E test_app_url")
     (simp_all add: main_defs banner_def browser_line_def)

lemma printed_simps:
  "printed \<lparr>trace = [], httpd = h\<rparr> = []"
  "printed \<lparr>trace = Print l # es, httpd = h\<rparr> = l # printed \<lparr>trace = es, httpd = h\<rparr>"
  "printed \<lparr>trace = Browser_open u # es, httpd = h\<rparr> = printed \<lparr>trace = es, httpd = h\<rparr>"
  "printed \<lparr>trace = Serve_forever # es, httpd = h\<rparr> = printed \<lparr>trace = es, httpd = h\<rparr>"
  "printed \<lparr>trace = Server_close # es, httpd = h\<rparr> = printed \<lparr>trace = es, httpd = h\<rparr>"
  by (simp_all add: printed_def)

text \<open>No \<^verbatim>\<open>KeyboardInterrupt\<close> leaves \<^verbatim>\<open>main()\<close>.\<close>

lemma main_catches_KeyboardInterrupt: "fst (main E w) \<noteq> Raise KeyboardInterrupt"
  by (simp add: main_def split: prod.splits outcome.splits exc.splits)

lemma sample_runs:
  "bind_and_activate interrupted_run = Return ()"
  "webbrowser_open interrupted_run u = Return True"
  "serve_forever interrupted_run = Raise KeyboardInterrupt"
  "bind_and_activate no_browser_run = Return ()"
  "webbrowser_open no_browser_run u = Raise (Exception ''webbrowser.Error'')"
  "serve_forever no_browser_run = Raise KeyboardInterrupt"
  "bind_and_activate interrupted_browser_run = Return ()"
  "webbrowser_open interrupted_browser_run u = Raise KeyboardInterrupt"
  "serve_forever interrupted_browser_run = Blocks"
  "bind_and_activate failing_serve_run = Return ()"
  "webbrowser_open failing_serve_run u = Return False"
  "serve_forever failing_serve_run = Raise (OSError (Some 9) ''Bad file descriptor'')"
  by (simp_all add: interrupted_run_def no_browser_run_def interrupted_browser_run_def
      failing_serve_run_def)

text \<open>
  Where the platform's \<^verbatim>\<open>EADDRINUSE\<close> is 48, an occupied port gets its own report.
\<close>

lemma port_in_use_on_darwin:
  "script (E\<lparr>bind_and_activate := Raise (address_in_use Darwin)\<rparr>) =
     (Raise (SystemExit 1),
      \<lparr>trace = [Print (Port_in_use 3000)],
       httpd = Some \<lparr>server_address = ('''', 3000), socket = Closed\<rparr>\<rparr>)"
  by (simp add: script_bind_raises address_in_use_def handled_def report_def
      closed_server_def PORT_def)

text \<open>
  Claim C3. A bind that fails because the port is occupied is to be reported by the
  port-in-use line, apart from every other startup failure, with exit status 1. The
  handler recognises the condition by \<^verbatim>\<open>e.errno == 48\<close> (commented "Address already in
  use"). On Linux the error carries 98: the script prints the generic "Error starting
  server" line, as for any other \<^verbatim>\<open>OSError\<close>, and exits with status 1.
\<close>

theorem port_in_use_on_linux:
  "script (E\<lparr>bind_and_activate := Raise (address_in_use Linux)\<rparr>) =
     (Raise (SystemExit 1),
      \<lparr>trace = [Print (Error_starting ''[Errno 98] Address already in use'')],
       httpd = Some \<lparr>server_address = ('''', 3000), socket = Closed\<rparr>\<rparr>)"
  by (simp add: script_bind_raises address_in_use_def handled_def report_def
      closed_server_def str_OSError_def str_int_def str_nat.simps PORT_def)

text \<open>
  Claim C4. When \<^verbatim>\<open>KeyboardInterrupt\<close> is raised in the serve loop, the \<^verbatim>\<open>with\<close>
  block closes the listening socket, then "Server stopped by user" is printed and the
  process exits with status 0; neither error line is printed.
\<close>

theorem interrupt_in_serve_loop:
  assumes "bind_and_activate E = Return ()"
    and "webbrowser_open E test_app_url \<noteq> Blocks"
    and "serve_forever E = Raise KeyboardInterrupt"
  shows "exit_code (fst (script E)) = Some 0
       \<and> listening_socket (snd (script E)) = Some Closed
       \<and> suffix [Serve_forever, Server_close, Print Stopped_by_user] (trace (snd (script E)))
       \<and> (\<forall>l \<in> set (printed (snd (script E))).
            \<forall>p s. l \<noteq> Port_in_use p \<and> l \<noteq> Error_starting s)"
  using script_served[OF assms(1,2)] assms(3)
  by (simp add: handled_def report_def listening_socket_def closed_server_def
      banner_def printed_simps suffix_def browser_line_def split: outcome.splits)

theorem interrupt_in_serve_loop_witness:
  "bind_and_activate interrupted_run = Return ()
 \<and> webbrowser_open interrupted_run test_app_url \<noteq> Blocks
 \<and> serve_forever interrupted_run = Raise KeyboardInterrupt
 \<and> exit_code (fst (script interrupted_run)) = Some 0
 \<and> listening_socket (snd (script interrupted_run)) = Some Closed
 \<and> suffix [Serve_forever, Server_close, Print Stopped_by_user]
      (trace (snd (script interrupted_run)))"
  using interrupt_in_serve_loop[of interrupted_run]
  by (simp add: sample_runs)



text \<open>
  Claim C8. Stopping the server (\<^verbatim>\<open>server_close\<close>) closes the listening socket;
  stopping twice is the same as stopping once, and stopping a server whose socket is
  closed changes nothing. On an interrupt in the serve loop \<^verbatim>\<open>server_close\<close> is
  called, and the server is left in a state that a further stop does not change.
\<close>

theorem stop_closes_and_is_idempotent:
  "socket (server_close srv) = Closed
 \<and> server_close (server_close srv) = server_close srv
 \<and> (socket srv = Closed \<longrightarrow> server_close srv = srv)
 \<and> (bind_and_activate E = Return () \<and> webbrowser_open E test_app_url \<noteq> Blocks
      \<and> serve_forever E = Raise KeyboardInterrupt \<longrightarrow>
        Server_close \<in> set (trace (snd (script E)))
      \<and> listening_socket (snd (script E)) = Some Closed
      \<and> map_option server_close (httpd (snd (script E))) = httpd (snd (script E)))"
proof -
  have "Server_close \<in> set (trace (snd (script E)))
      \<and> listening_socket (snd (script E)) = Some Closed
      \<and> map_option server_close (httpd (snd (script E))) = httpd (snd (script E))"
    if "bind_and_activate E = Return ()" "webbrowser_open E test_app_url \<noteq> Blocks"
      "serve_forever E = Raise KeyboardInterrupt"
    using script_served[OF that(1,2)] that(3)
    by (simp add: closed_server_def server_close_def listening_socket_def)
  then show ?thesis
    by (simp add: server_close_def)
qed

theorem stop_closes_and_is_idempotent_witness:
  "socket closed_server = Closed
 \<and> server_close closed_server = closed_server
 \<and> bind_and_activate interrupted_run = Return ()
 \<and> serve_forever interrupted_run = Raise KeyboardInterrupt
 \<and> Server_close \<in> set (trace (snd (script interrupted_run)))
 \<and> map_option server_close (httpd (snd (script interrupted_run)))
      = httpd (snd (script interrupted_run))"
  using stop_closes_and_is_idempotent[of closed_server interrupted_run]
  by (simp add: sample_runs closed_server_def)

text \<open>
  Claim C9. An \<^verbatim>\<open>OSError\<close> raised by the serve loop, after a successful bind, reaches
  the handler that startup failures reach: the process prints the port-in-use line when
  \<^verbatim>\<open>errno\<close> is 48 and the generic line otherwise, and exits with status 1; the
  outcome and the line are those of the run in which the bind raised that error.
\<close>

theorem oserror_in_serve_loop:
  assumes "bind_and_activate E = Return ()"
    and "webbrowser_open E test_app_url \<noteq> Blocks"
    and "serve_forever E = Raise (OSError errno strerror)"
  shows "exit_code (fst (script E)) = Some 1
       \<and> last (printed (snd (script E))) =
           (if errno = Some 48 then Port_in_use 3000
            else Error_starting (str_OSError errno strerror))
       \<and> fst (script E) =
           fst (script (E\<lparr>bind_and_activate := Raise (OSError errno strerror)\<rparr>))
       \<and> last (printed (snd (script E))) =
           last (printed
             (snd (script (E\<lparr>bind_and_activate := Raise (OSError errno strerror)\<rparr>))))"
  using script_served[OF assms(1,2)] assms(3)
    script_bind_raises[of "E\<lparr>bind_and_activate := Raise (OSError errno strerror)\<rparr>"
      "OSError errno strerror"]
  by (simp add: handled_def report_def banner_def printed_simps PORT_def)

theorem oserror_in_serve_loop_witness:
  "bind_and_activate failing_serve_run = Return ()
 \<and> webbrowser_open failing_serve_run test_app_url \<noteq> Blocks
 \<and> serve_forever failing_serve_run = Raise (OSError (Some 9) ''Bad file descriptor'')
 \<and> exit_code (fst (script failing_serve_run)) = Some 1
 \<and> last (printed (snd (script failing_serve_run))) =
      Error_starting ''[Errno 9] Bad file descriptor''"
proof -
  have b: "bind_and_activate failing_serve_run = Return ()"
    and o: "webbrowser_open failing_serve_run test_app_url \<noteq> Blocks"
    and s: "serve_forever failing_serve_run = Raise (OSError (Some 9) ''Bad file descriptor'')"
    by (simp_all add: sample_runs)
  have str: "str_OSError (Some 9) ''Bad file descriptor'' = ''[Errno 9] Bad file descriptor''"
    by (simp add: str_OSError_def str_int_def str_nat.simps)
  note th = oserror_in_serve_loop[OF b o s]
  from th[THEN conjunct1]
  have c1: "exit_code (fst (script failing_serve_run)) = Some 1" .
  from th[THEN conjunct2, THEN conjunct1]
  have c2: "last (printed (snd (script failing_serve_run))) =
      Error_starting ''[Errno 9] Bad file descriptor''"
    by (simp add: str)
  from b o s c1 c2 show ?thesis
    by blast
qed

text \<open>
  Claim C10. A \<^verbatim>\<open>KeyboardInterrupt\<close> raised while \<^verbatim>\<open>webbrowser.open\<close> runs is caught
  by the bare \<^verbatim>\<open>except:\<close>: "Could not open browser automatically" is printed and the
  serve loop is entered. The process does not exit there: its outcome is the one the
  serve loop gives, and while the loop runs the process has no exit status and the
  socket listens.
\<close>

theorem interrupt_during_browser_open:
  assumes "bind_and_activate E = Return ()"
    and "webbrowser_open E test_app_url = Raise KeyboardInterrupt"
  shows "prefix (banner @ [Print Browser_not_opened, Print Empty_line, Serve_forever])
           (trace (snd (script E)))
       \<and> fst (script E) = handled (serve_forever E)
       \<and> (serve_forever E = Blocks \<longrightarrow>
            exit_code (fst (script E)) = None
          \<and> listening_socket (snd (script E)) = Some Listening
          \<and> Stopped_by_user \<notin> set (printed (snd (script E))))"
proof (cases "serve_forever E = Blocks")
  case True
  with assms show ?thesis
    by (simp add: script_serving browser_line_def handled_def listening_socket_def
        banner_def printed_simps)
next
  case False
  with assms show ?thesis
    by (simp add: script_served browser_line_def)
qed

theorem interrupt_during_browser_open_witness:
  "bind_and_activate interrupted_browser_run = Return ()
 \<and> webbrowser_open interrupted_browser_run test_app_url = Raise KeyboardInterrupt
 \<and> serve_forever interrupted_browser_run = Blocks
 \<and> prefix (banner @ [Print Browser_not_opened, Print Empty_line, Serve_forever])
      (trace (snd (script interrupted_browser_run)))
 \<and> exit_code (fst (script interrupted_browser_run)) = None
 \<and> listening_socket (snd (script interrupted_browser_run)) = Some Listening"
proof -
  have b: "bind_and_activate interrupted_browser_run = Return ()"
    and o: "webbrowser_open interrupted_browser_run test_app_url = Raise KeyboardInterrupt"
    and s: "serve_forever interrupted_browser_run = Blocks"
    by (simp_all add: sample_runs)
  from interrupt_during_browser_open[OF b o] s b o show ?thesis
    by blast
qed

section \<open>Properties of the request handler\<close>

subsection \<open>What each method leaves unchanged or adds\<close>

lemma parsed_request_fields [simp]:
  "command (parsed_request cmd p ver hdrs) = cmd"
  "path (parsed_request cmd p ver hdrs) = p"
  "request_version (parsed_request cmd p ver hdrs) = ver"
  "headers (parsed_request cmd p ver hdrs) = hdrs"
  "headers_buffer (parsed_request cmd p ver hdrs) = []"
  "wfile (parsed_request cmd p ver hdrs) = []"
  "fs_log (parsed_request cmd p ver hdrs) = []"
  by (simp_all add: parsed_request_def)

lemma send_header_fields [simp]:
  "wfile (send_header k v h) = wfile h"
  "request_version (send_header k v h) = request_version h"
  "command (send_header k v h) = command h"
  "path (send_header k v h) = path h"
  "headers (send_header k v h) = headers h"
  "fs_log (send_header k v h) = fs_log h"
  by (simp_all add: send_header_def)

lemma send_header_buffer:
  "request_version h \<noteq> ''HTTP/0.9'' \<Longrightarrow>
   headers_buffer (send_header k v h) = headers_buffer h @ [Header k v]"
  by (simp add: send_header_def)

lemma send_response_fields [simp]:
  "wfile (send_response S c m h) = wfile h"
  "request_version (send_response S c m h) = request_version h"
  "command (send_response S c m h) = command h"
  "path (send_response S c m h) = path h"
  "headers (send_response S c m h) = headers h"
  "fs_log (send_response S c m h) = fs_log h"
  by (simp_all add: send_response_def send_response_only_def Let_def)

lemma send_response_buffer:
  "request_version h \<noteq> ''HTTP/0.9'' \<Longrightarrow>
   headers_buffer (send_response S c None h) =
     headers_buffer h @
       [Status_line (protocol_version S) c
          (case responses S c of Some (phrase, _) \<Rightarrow> phrase | None \<Rightarrow> ''''),
        Header ''Server'' (version_string S), Header ''Date'' (date_time_string S None)]"
  "request_version h \<noteq> ''HTTP/0.9'' \<Longrightarrow>
   headers_buffer (send_response S c (Some m) h) =
     headers_buffer h @
       [Status_line (protocol_version S) c m,
        Header ''Server'' (version_string S), Header ''Date'' (date_time_string S None)]"
  by (simp_all add: send_response_def send_response_only_def send_header_def Let_def)

lemma fs_access_fields [simp]:
  "wfile (fs_access op h) = wfile h"
  "request_version (fs_access op h) = request_version h"
  "command (fs_access op h) = command h"
  "path (fs_access op h) = path h"
  "headers (fs_access op h) = headers h"
  "headers_buffer (fs_access op h) = headers_buffer h"
  "fs_log (fs_access op h) = fs_log h @ [op]"
  by (simp_all add: fs_access_def)

lemma end_headers_fields [simp]:
  "request_version (end_headers h) = request_version h"
  "command (end_headers h) = command h"
  "path (end_headers h) = path h"
  "headers (end_headers h) = headers h"
  "fs_log (end_headers h) = fs_log h"
  by (simp_all add: end_headers_def base_end_headers_def flush_headers_def send_header_def
      Let_def)

lemma end_headers_wfile:
  "request_version h \<noteq> ''HTTP/0.9'' \<Longrightarrow>
   wfile (end_headers h) = wfile h @ [Head (headers_buffer h @ cors_headers @ [Blank_line])]"
  "request_version h \<noteq> ''HTTP/0.9'' \<Longrightarrow> headers_buffer (end_headers h) = []"
  by (simp_all add: end_headers_def base_end_headers_def flush_headers_def send_header_def
      Let_def cors_headers_def)

text \<open>A response to an HTTP/0.9 request has no status line and no header section.\<close>

lemma end_headers_HTTP_0_9: "request_version h = ''HTTP/0.9'' \<Longrightarrow> end_headers h = h"
  by (simp add: end_headers_def base_end_headers_def send_header_def)

lemma wfile_write_fields [simp]:
  "wfile (wfile_write b h) = wfile h @ [Body b]"
  "fs_log (wfile_write b h) = fs_log h"
  "request_version (wfile_write b h) = request_version h"
  by (simp_all add: wfile_write_def)

subsection \<open>Every path through the handler ends its header section by end_headers\<close>

lemma staged_refl: "request_version h \<noteq> ''HTTP/0.9'' \<Longrightarrow> staged h h"
  by (simp add: staged_def)

lemma staged_send_header: "staged h h' \<Longrightarrow> staged h (send_header k v h')"
  by (auto simp: staged_def send_header_buffer)

lemma staged_send_response: "staged h h' \<Longrightarrow> staged h (send_response S c m h')"
  by (cases m) (auto simp: staged_def send_response_buffer)

lemma staged_fs_access: "staged h h' \<Longrightarrow> staged h (fs_access op h')"
  by (auto simp: staged_def)

lemmas staging = staged_send_header staged_send_response staged_fs_access

lemma answered_end_headers: "staged h h' \<Longrightarrow> answered h (end_headers h')"
  unfolding staged_def answered_def
proof (elim conjE exE)
  fix ls
  assume v: "request_version h' \<noteq> ''HTTP/0.9''" and w: "wfile h' = wfile h"
    and b: "headers_buffer h' = headers_buffer h @ ls"
  have "wfile (end_headers h') =
      wfile h @ Head (headers_buffer h @ ls @ cors_headers @ [Blank_line]) # map Body []"
    using v w b by (simp add: end_headers_wfile)
  then show "\<exists>ls bodies. wfile (end_headers h') =
      wfile h @ Head (headers_buffer h @ ls @ cors_headers @ [Blank_line]) # map Body bodies"
    by blast
qed

lemma answered_wfile_write: "answered h h' \<Longrightarrow> answered h (wfile_write b h')"
  unfolding answered_def
proof (elim exE)
  fix ls bodies
  assume "wfile h' =
      wfile h @ Head (headers_buffer h @ ls @ cors_headers @ [Blank_line]) # map Body bodies"
  then have "wfile (wfile_write b h') =
      wfile h @ Head (headers_buffer h @ ls @ cors_headers @ [Blank_line])
        # map Body (bodies @ [b])"
    by simp
  then show "\<exists>ls bodies. wfile (wfile_write b h') =
      wfile h @ Head (headers_buffer h @ ls @ cors_headers @ [Blank_line]) # map Body bodies"
    by blast
qed

lemma answered_copyfile: "answered h h' \<Longrightarrow> answered h (copyfile f h')"
  by (simp add: copyfile_def answered_wfile_write)

lemma answered_send_error: "staged h h' \<Longrightarrow> answered h (send_error S c m h')"
  by (auto simp: send_error_def Let_def split: option.splits prod.splits
      intro!: answered_wfile_write answered_end_headers staging)

lemma answered_list_directory: "staged h h' \<Longrightarrow> answered h (snd (list_directory S p h'))"
  by (auto simp: list_directory_def Let_def split: option.splits
      intro!: answered_send_error answered_end_headers staging)

lemma answered_send_head_file: "staged h h' \<Longrightarrow> answered h (snd (send_head_file S p h'))"
  by (auto simp: send_head_file_def Let_def split: option.splits
      intro!: answered_send_error answered_end_headers staging)

lemma answered_send_head: "staged h h' \<Longrightarrow> answered h (snd (send_head S h'))"
  by (auto simp: send_head_def Let_def
      intro!: answered_send_head_file answered_list_directory answered_end_headers staging)

lemma answered_do_GET: "staged h h' \<Longrightarrow> answered h (do_GET S h')"
  using answered_send_head[of h h' S]
  by (auto simp: do_GET_def split: prod.splits option.splits intro: answered_copyfile)

lemma answered_handle_one_request:
  "staged h h' \<Longrightarrow> answered h (handle_one_request S h')"
  by (simp add: handle_one_request_def do_HEAD_def do_OPTIONS_def Let_def
      answered_do_GET answered_send_head answered_send_error answered_end_headers staging)

lemma send_error_status:
  "request_version h \<noteq> ''HTTP/0.9'' \<Longrightarrow> wfile h = [] \<Longrightarrow> headers_buffer h = [] \<Longrightarrow>
   response_status (send_error S code message h) = Some code"
  by (simp add: send_error_def Let_def response_status_def end_headers_wfile
      send_header_buffer send_response_buffer split: option.splits prod.splits)


subsection \<open>The claims about responses\<close>

text \<open>
  Claim C1. Every response to a request (of a protocol version that has a header
  section) carries \<^verbatim>\<open>Access-Control-Allow-Origin: *\<close>,
  \<^verbatim>\<open>Access-Control-Allow-Methods: GET, POST, OPTIONS\<close> and
  \<^verbatim>\<open>Access-Control-Allow-Headers: Content-Type, Authorization\<close>, whatever the method
  and the status: \<^verbatim>\<open>end_headers\<close> puts the three lines after whatever is in the header
  buffer and before the blank line, in the one write that flushes the header section;
  and every request, whatever its command, path and headers, and every error reply,
  whatever its code, gets exactly one header section, written that way, followed by
  content only.
\<close>

theorem cors_headers_on_every_response:
  assumes "request_version h \<noteq> ''HTTP/0.9''"
  shows "wfile (end_headers h) =
           wfile h @
             [Head (headers_buffer h @
                [Header ''Access-Control-Allow-Origin'' ''*'',
                 Header ''Access-Control-Allow-Methods'' ''GET, POST, OPTIONS'',
                 Header ''Access-Control-Allow-Headers'' ''Content-Type, Authorization'',
                 Blank_line])]
       \<and> (\<exists>ls bodies. wfile (handle_one_request S h) =
             wfile h @ Head (headers_buffer h @ ls @ cors_headers @ [Blank_line])
               # map Body bodies)
       \<and> (\<exists>ls bodies. wfile (send_error S code message h) =
             wfile h @ Head (headers_buffer h @ ls @ cors_headers @ [Blank_line])
               # map Body bodies)"
proof -
  from assms have s: "staged h h"
    by (rule staged_refl)
  from assms have "wfile (end_headers h) =
           wfile h @
             [Head (headers_buffer h @
                [Header ''Access-Control-Allow-Origin'' ''*'',
                 Header ''Access-Control-Allow-Methods'' ''GET, POST, OPTIONS'',
                 Header ''Access-Control-Allow-Headers'' ''Content-Type, Authorization'',
                 Blank_line])]"
    by (simp add: end_headers_wfile cors_headers_def)
  moreover from s have "answered h (handle_one_request S h)"
    by (rule answered_handle_one_request)
  moreover from s have "answered h (send_error S code message h)"
    by (rule answered_send_error)
  ultimately show ?thesis
    unfolding answered_def by blast
qed

theorem cors_headers_on_every_response_witness:
  "request_version put_request \<noteq> ''HTTP/0.9''
 \<and> wfile (end_headers put_request) = [Head (cors_headers @ [Blank_line])]
 \<and> (\<exists>ls bodies. wfile (handle_one_request sample_stdlib put_request) =
       Head (ls @ cors_headers @ [Blank_line]) # map Body bodies)
 \<and> response_status (handle_one_request sample_stdlib put_request) = Some 501"
proof -
  have v: "request_version put_request \<noteq> ''HTTP/0.9''"
    by (simp add: put_request_def)
  note th = cors_headers_on_every_response[OF v, of sample_stdlib 501 None]
  from th[THEN conjunct1]
  have a: "wfile (end_headers put_request) = [Head (cors_headers @ [Blank_line])]"
    by (simp add: put_request_def cors_headers_def)
  from th[THEN conjunct2, THEN conjunct1]
  have b: "\<exists>ls bodies. wfile (handle_one_request sample_stdlib put_request) =
       Head (ls @ cors_headers @ [Blank_line]) # map Body bodies"
    by (simp add: put_request_def)
  have c: "response_status (handle_one_request sample_stdlib put_request) = Some 501"
    by (simp add: put_request_def handle_one_request_def send_error_status)
  from v a b c show ?thesis
    by blast
qed

text \<open>
  Claim C2. A request whose method is \<^verbatim>\<open>OPTIONS\<close>, on any path and with any headers,
  is answered by one header section with status 200 (status line, \<^verbatim>\<open>Server\<close>,
  \<^verbatim>\<open>Date\<close>, the three CORS headers) and no body, and the handler makes no file system
  call for it.
\<close>

theorem options_preflight:
  assumes "ver \<noteq> ''HTTP/0.9''"
  shows "response_status (handle_one_request S (parsed_request ''OPTIONS'' p ver hdrs)) = Some 200
       \<and> response_body (handle_one_request S (parsed_request ''OPTIONS'' p ver hdrs)) = []
       \<and> fs_log (handle_one_request S (parsed_request ''OPTIONS'' p ver hdrs)) = []
       \<and> wfile (handle_one_request S (parsed_request ''OPTIONS'' p ver hdrs)) =
           [Head ([Status_line (protocol_version S) 200
                     (case responses S 200 of Some (phrase, _) \<Rightarrow> phrase | None \<Rightarrow> ''''),
                   Header ''Server'' (version_string S),
                   Header ''Date'' (date_time_string S None)]
                  @ cors_headers @ [Blank_line])]"
  using assms
  by (simp add: handle_one_request_def do_OPTIONS_def Let_def response_status_def
      response_body_def end_headers_wfile send_response_buffer)

theorem options_preflight_witness:
  "''HTTP/1.1'' \<noteq> ''HTTP/0.9''
 \<and> response_status
      (handle_one_request sample_stdlib
         (parsed_request ''OPTIONS'' ''/anything'' ''HTTP/1.1'' Map.empty)) = Some 200
 \<and> response_body
      (handle_one_request sample_stdlib
         (parsed_request ''OPTIONS'' ''/anything'' ''HTTP/1.1'' Map.empty)) = []
 \<and> fs_log
      (handle_one_request sample_stdlib
         (parsed_request ''OPTIONS'' ''/anything'' ''HTTP/1.1'' Map.empty)) = []"
  using options_preflight[of "''HTTP/1.1''" sample_stdlib "''/anything''" Map.empty]
  by simp






end
